theory Spec2Isabelle
  imports Main "HOL-Library.Word" "HOL-Library.AList" "HOL-Library.Char_ord"
    "HOL-Library.List_Lexorder"
begin

unbundle bit_operations_syntax

section \<open>Python values used by the S3 storage driver\<close>

text \<open>
  Python 2 byte strings are \<^typ>\<open>string\<close>; \<open>None\<close> in a slot that otherwise holds
  a string is \<^const>\<open>None\<close> of \<^typ>\<open>string option\<close>. Integers are unbounded.
\<close>

fun digit_char :: "nat \<Rightarrow> char" where
  "digit_char n = char_of (48 + n)"

fun str_nat :: "nat \<Rightarrow> string" where
  "str_nat n = (if n < 10 then [digit_char n] else str_nat (n div 10) @ [digit_char (n mod 10)])"

declare str_nat.simps [simp del]

definition str_int :: "int \<Rightarrow> string" where
  \<comment> \<open>\<open>str(i)\<close>, \<open>'%d' % i\<close> and \<open>'%s' % i\<close> on a Python integer\<close>
  "str_int i = (if i < 0 then CHR ''-'' # str_nat (nat (- i)) else str_nat (nat i))"

text \<open>The argument \<open>expires\<close> of the signer is tested for truth and passed to \<open>str\<close>.\<close>

datatype pyval = PyNone | PyStr string | PyInt int

fun truthy :: "pyval \<Rightarrow> bool" where
  "truthy PyNone = False"
| "truthy (PyStr s) = (s \<noteq> [])"
| "truthy (PyInt i) = (i \<noteq> 0)"

fun py_str :: "pyval \<Rightarrow> string" where
  "py_str PyNone = ''None''"
| "py_str (PyStr s) = s"
| "py_str (PyInt i) = str_int i"

fun fmt_s :: "string option \<Rightarrow> string" where
  \<comment> \<open>\<open>'%s' % x\<close> for \<open>x\<close> a string or \<open>None\<close>\<close>
  "fmt_s None = ''None''"
| "fmt_s (Some s) = s"

definition lower_char :: "char \<Rightarrow> char" where
  "lower_char c = (let n = of_char c :: nat in if 65 \<le> n \<and> n \<le> 90 then char_of (n + 32) else c)"

definition lower :: "string \<Rightarrow> string" where
  \<comment> \<open>\<open>str.lower\<close> in the C locale: the letters A to Z only\<close>
  "lower s = map lower_char s"

definition isspace :: "char \<Rightarrow> bool" where
  "isspace c = (of_char c \<in> set [9, 10, 11, 12, 13, 32 :: nat])"

definition strip :: "string \<Rightarrow> string" where
  "strip s = rev (dropWhile isspace (rev (dropWhile isspace s)))"

fun join :: "string \<Rightarrow> string list \<Rightarrow> string" where
  "join sep [] = []"
| "join sep [x] = x"
| "join sep (x # y # ys) = x @ sep @ join sep (y # ys)"

fun split_on :: "char \<Rightarrow> string \<Rightarrow> string list" where
  \<comment> \<open>\<open>s.split(sep)\<close> for a separator of one character\<close>
  "split_on sep [] = [[]]"
| "split_on sep (c # cs) =
     (if c = sep then [] # split_on sep cs
      else (case split_on sep cs of w # ws \<Rightarrow> (c # w) # ws | [] \<Rightarrow> [[c]]))"

section \<open>Standard library: \<open>hashlib.sha1\<close>, \<open>hmac\<close>, \<open>base64.b64encode\<close>\<close>

definition be_word32 :: "string \<Rightarrow> 32 word" where
  "be_word32 bs = foldl (\<lambda>acc c. push_bit 8 acc OR of_char c) 0 bs"

fun chunks :: "nat \<Rightarrow> nat \<Rightarrow> 'a list \<Rightarrow> 'a list list" where
  "chunks 0 n xs = []"
| "chunks (Suc k) n xs = take n xs # chunks k n (drop n xs)"

definition be_bytes :: "nat \<Rightarrow> 64 word \<Rightarrow> string" where
  "be_bytes k v = map (\<lambda>i. char_of (unat (drop_bit (8 * (k - 1 - i)) v AND 255))) [0..<k]"

definition sha1_pad :: "string \<Rightarrow> string" where
  "sha1_pad m = m @ [char_of (128::nat)] @ replicate ((119 - length m mod 64) mod 64) (char_of (0::nat))
                  @ be_bytes 8 (of_nat (8 * length m))"

fun sha1_schedule :: "nat \<Rightarrow> 32 word list \<Rightarrow> 32 word list" where
  "sha1_schedule 0 ws = ws"
| "sha1_schedule (Suc k) ws =
     (let l = length ws in
      sha1_schedule k (ws @ [word_rotl 1 (ws ! (l - 3) XOR ws ! (l - 8) XOR ws ! (l - 14) XOR ws ! (l - 16))]))"

type_synonym sha1_state = "32 word \<times> 32 word \<times> 32 word \<times> 32 word \<times> 32 word"

definition sha1_f :: "nat \<Rightarrow> 32 word \<Rightarrow> 32 word \<Rightarrow> 32 word \<Rightarrow> 32 word" where
  "sha1_f t b c d =
     (if t < 20 then (b AND c) OR (NOT b AND d)
      else if t < 40 then b XOR c XOR d
      else if t < 60 then (b AND c) OR (b AND d) OR (c AND d)
      else b XOR c XOR d)"

definition sha1_k :: "nat \<Rightarrow> 32 word" where
  "sha1_k t = (if t < 20 then 0x5A827999 else if t < 40 then 0x6ED9EBA1
               else if t < 60 then 0x8F1BBCDC else 0xCA62C1D6)"

definition sha1_round :: "32 word list \<Rightarrow> sha1_state \<Rightarrow> nat \<Rightarrow> sha1_state" where
  "sha1_round ws st t = (case st of (a, b, c, d, e) \<Rightarrow>
     (word_rotl 5 a + sha1_f t b c d + e + sha1_k t + ws ! t, a, word_rotl 30 b, c, d))"

definition sha1_block :: "sha1_state \<Rightarrow> string \<Rightarrow> sha1_state" where
  "sha1_block h blk =
     (let ws = sha1_schedule 64 (map be_word32 (chunks 16 4 blk));
          (a, b, c, d, e) = foldl (sha1_round ws) h [0..<80];
          (h0, h1, h2, h3, h4) = h
      in (h0 + a, h1 + b, h2 + c, h3 + d, h4 + e))"

definition word32_bytes :: "32 word \<Rightarrow> string" where
  "word32_bytes w = be_bytes 4 (ucast w)"

definition sha1 :: "string \<Rightarrow> string" where
  "sha1 m =
     (let p = sha1_pad m;
          (h0, h1, h2, h3, h4) =
             foldl sha1_block (0x67452301, 0xEFCDAB89, 0x98BADCFE, 0x10325476, 0xC3D2E1F0)
                   (chunks (length p div 64) 64 p)
      in concat (map word32_bytes [h0, h1, h2, h3, h4]))"

definition xor_char :: "nat \<Rightarrow> char \<Rightarrow> char" where
  "xor_char k c = char_of (unat ((of_char c :: 8 word) XOR of_nat k))"

definition hmac_sha1 :: "string \<Rightarrow> string \<Rightarrow> string" where
  "hmac_sha1 key msg =
     (let k0 = (if length key > 64 then sha1 key else key);
          k = k0 @ replicate (64 - length k0) (char_of (0::nat))
      in sha1 (map (xor_char 0x5C) k @ sha1 (map (xor_char 0x36) k @ msg)))"

definition b64_alphabet :: string where
  "b64_alphabet = ''ABCDEFGHIJKLMNOPQRSTUVWXYZabcdefghijklmnopqrstuvwxyz0123456789+/''"

definition b64_char :: "nat \<Rightarrow> char" where
  "b64_char n = b64_alphabet ! (n mod 64)"

fun b64encode :: "string \<Rightarrow> string" where
  "b64encode [] = []"
| "b64encode [a] =
     (let n = of_char a * 65536 :: nat
      in [b64_char (n div 262144), b64_char (n div 4096), CHR ''='', CHR ''=''])"
| "b64encode [a, b] =
     (let n = of_char a * 65536 + of_char b * 256 :: nat
      in [b64_char (n div 262144), b64_char (n div 4096), b64_char (n div 64), CHR ''=''])"
| "b64encode (a # b # c # rest) =
     (let n = of_char a * 65536 + of_char b * 256 + of_char c :: nat
      in [b64_char (n div 262144), b64_char (n div 4096), b64_char (n div 64), b64_char n]
         @ b64encode rest)"

section \<open>Standard library: \<open>xml.etree.ElementTree\<close>\<close>

text \<open>
  An element has a tag, a text (possibly \<open>None\<close>) and children; attributes and tails
  are not used by the driver. Paths are sequences of tags separated by \<open>/\<close>, a tag
  possibly qualified as \<open>{uri}name\<close>, where the \<open>uri\<close> may hold \<open>/\<close>.
\<close>

datatype element = Element (elem_tag: string) (elem_text: "string option") (elem_children: "element list")

fun path_steps :: "bool \<Rightarrow> string \<Rightarrow> string list" where
  "path_steps inb [] = [[]]"
| "path_steps inb (c # cs) =
     (if c = CHR ''/'' \<and> \<not> inb then [] # path_steps False cs
      else (case path_steps (if c = CHR ''{'' then True else if c = CHR ''}'' then False else inb) cs of
              w # ws \<Rightarrow> (c # w) # ws
            | [] \<Rightarrow> [[c]]))"

definition find_step :: "element list \<Rightarrow> string \<Rightarrow> element list" where
  "find_step nodes t = concat (map (\<lambda>e. filter (\<lambda>c. elem_tag c = t) (elem_children e)) nodes)"

definition et_findall :: "element \<Rightarrow> string \<Rightarrow> element list" where
  "et_findall e path = foldl find_step [e] (path_steps False path)"

definition et_findtext :: "element \<Rightarrow> string \<Rightarrow> string option" where
  "et_findtext e path =
     (case et_findall e path of
        [] \<Rightarrow> None
      | x # _ \<Rightarrow> Some (case elem_text x of None \<Rightarrow> [] | Some t \<Rightarrow> t))"

fun escape_cdata :: "string \<Rightarrow> string" where
  "escape_cdata [] = []"
| "escape_cdata (c # cs) =
     (if c = CHR ''&'' then ''&amp;'' else if c = CHR ''<'' then ''&lt;''
      else if c = CHR ''>'' then ''&gt;'' else [c]) @ escape_cdata cs"

fun tostring :: "element \<Rightarrow> string" where
  "tostring (Element t txt cs) =
     ''<'' @ t @
     (if (txt \<noteq> None \<and> txt \<noteq> Some []) \<or> cs \<noteq> [] then
        ''>'' @ (case txt of None \<Rightarrow> [] | Some s \<Rightarrow> escape_cdata s) @
        concat (map tostring cs) @ ''</'' @ t @ ''>''
      else '' />'')"

section \<open>Module constants\<close>

definition EXPIRATION_SECONDS :: int where "EXPIRATION_SECONDS = 15 * 60"

definition S3_US_STANDARD_HOST :: string where "S3_US_STANDARD_HOST = ''s3.amazonaws.com''"
definition S3_US_WEST_HOST :: string where "S3_US_WEST_HOST = ''s3-us-west-1.amazonaws.com''"
definition S3_EU_WEST_HOST :: string where "S3_EU_WEST_HOST = ''s3-eu-west-1.amazonaws.com''"
definition S3_AP_SOUTHEAST_HOST :: string where "S3_AP_SOUTHEAST_HOST = ''s3-ap-southeast-1.amazonaws.com''"
definition S3_AP_NORTHEAST_HOST :: string where "S3_AP_NORTHEAST_HOST = ''s3-ap-northeast-1.amazonaws.com''"

definition API_VERSION :: string where "API_VERSION = ''2006-03-01''"
definition NAMESPACE :: string where "NAMESPACE = ''http://s3.amazonaws.com/doc/'' @ API_VERSION @ ''/''"

definition NOT_FOUND :: int where "NOT_FOUND = 404"
definition CONFLICT :: int where "CONFLICT = 409"
definition OK :: int where "OK = 200"
definition NO_CONTENT :: int where "NO_CONTENT = 204"

section \<open>Drivers\<close>

text \<open>
  The five driver classes differ in their class attributes only: the name, the host of
  the connection class, and \<open>ex_location_name\<close>.
\<close>

record s3_driver =
  drv_name :: string
  drv_host :: string
  ex_location_name :: string

definition S3StorageDriver :: s3_driver where
  "S3StorageDriver = \<lparr>drv_name = ''Amazon S3 (standard)'', drv_host = ''s3.amazonaws.com'', ex_location_name = []\<rparr>"

definition S3USWestStorageDriver :: s3_driver where
  "S3USWestStorageDriver = \<lparr>drv_name = ''Amazon S3 (us-west-1)'', drv_host = S3_US_WEST_HOST, ex_location_name = ''us-west-1''\<rparr>"

definition S3EUWestStorageDriver :: s3_driver where
  "S3EUWestStorageDriver = \<lparr>drv_name = ''Amazon S3 (eu-west-1)'', drv_host = S3_EU_WEST_HOST, ex_location_name = ''EU''\<rparr>"

definition S3APSEStorageDriver :: s3_driver where
  "S3APSEStorageDriver = \<lparr>drv_name = ''Amazon S3 (ap-southeast-1)'', drv_host = S3_AP_SOUTHEAST_HOST, ex_location_name = ''ap-southeast-1''\<rparr>"

definition S3APNEStorageDriver :: s3_driver where
  "S3APNEStorageDriver = \<lparr>drv_name = ''Amazon S3 (ap-northeast-1)'', drv_host = S3_AP_NORTHEAST_HOST, ex_location_name = ''ap-northeast-1''\<rparr>"

section \<open>Errors\<close>

text \<open>
  The \<open>driver=\<close> keyword of an exception is the class \<open>S3StorageDriver\<close> in
  \<open>parse_error\<close>, the driver instance in the driver's operations, and absent in the
  conflict branch of \<open>create_container\<close>. \<open>ContainerIsNotEmptyError\<close> and
  \<open>ContainerDoesNotExistError\<close> hold \<open>value\<close>, \<open>container_name\<close> and \<open>driver\<close>.
\<close>

datatype driver_ref = NoDriver | DriverClass | DriverInstance s3_driver

datatype error =
    InvalidCredsError string
  | LibcloudError string driver_ref
  | ContainerIsNotEmptyError string "string option" s3_driver
  | ContainerDoesNotExistError "string option" "string option" s3_driver

section \<open>S3Response\<close>

record response =
  resp_status :: int
  resp_body :: string
  resp_object :: element

definition valid_response_codes :: "int list" where
  "valid_response_codes = [NOT_FOUND, CONFLICT]"

definition success :: "response \<Rightarrow> bool" where
  "success self = (let i = resp_status self in i \<ge> 200 \<and> i \<le> 299 \<or> i \<in> set valid_response_codes)"

definition parse_error :: "response \<Rightarrow> error" where
  \<comment> \<open>every path of the method raises; the result is the exception raised\<close>
  "parse_error self =
     (if resp_status self = 403 then InvalidCredsError (resp_body self)
      else if resp_status self = 301 then
        LibcloudError (''This bucket is located in a different '' @
                       ''region. Please use the correct driver.'') DriverClass
      else LibcloudError (''Unknown error. Status code: '' @ str_int (resp_status self)) DriverClass)"

section \<open>S3Connection\<close>

text \<open>
  A header map is the list of its items in the order \<open>iteritems\<close> yields them. The dict
  \<open>special_header_values\<close> is an association list updated with
  \<^const>\<open>AList.update\<close>, which replaces the value of a key that is present.
\<close>

type_synonym headers = "(string \<times> string) list"

definition special_header_keys :: "string list" where
  "special_header_keys = [''content-md5'', ''content-type'', ''date'']"

fun collect_special :: "headers \<Rightarrow> (string \<times> string) list \<Rightarrow> (string \<times> string) list" where
  \<comment> \<open>the loop over \<open>headers_copy.iteritems()\<close>\<close>
  "collect_special [] shv = shv"
| "collect_special ((key, val) # hs) shv =
     collect_special hs
       (if lower key \<in> set special_header_keys
        then AList.update (lower key) (strip (lower val)) shv else shv)"

definition has_key :: "(string \<times> string) list \<Rightarrow> string \<Rightarrow> bool" where
  "has_key d k = (map_of d k \<noteq> None)"

definition getitem :: "(string \<times> string) list \<Rightarrow> string \<Rightarrow> string" where
  \<comment> \<open>\<open>d[k]\<close> for a key the dict holds\<close>
  "getitem d k = (case map_of d k of Some v \<Rightarrow> v | None \<Rightarrow> [])"

definition special_header_values :: "headers \<Rightarrow> pyval \<Rightarrow> (string \<times> string) list" where
  "special_header_values headers expires =
     (let shv0 = collect_special headers [(''date'', [])];
          shv1 = (if \<not> has_key shv0 ''content-md5'' then AList.update ''content-md5'' [] shv0 else shv0);
          shv2 = (if \<not> has_key shv1 ''content-type'' then AList.update ''content-type'' [] shv1 else shv1)
      in if truthy expires then AList.update ''date'' (py_str expires) shv2 else shv2)"

definition string_to_sign :: "string \<Rightarrow> headers \<Rightarrow> pyval \<Rightarrow> string \<Rightarrow> string" where
  "string_to_sign method headers expires path =
     (let shv = special_header_values headers expires;
          keys_sorted = sort (map fst shv);
          buf = [method] @ map (getitem shv) keys_sorted
      in join [CHR 0x0A] buf @ [CHR 0x0A] @ path)"

definition get_aws_auth_param ::
  "string \<Rightarrow> headers \<Rightarrow> 'p \<Rightarrow> pyval \<Rightarrow> string \<Rightarrow> string \<Rightarrow> string" where
  "get_aws_auth_param method headers params expires secret_key path =
     b64encode (hmac_sha1 secret_key (string_to_sign method headers expires path))"

text \<open>
  Parameter maps are mutable objects shared with the caller: a store maps references
  to parameter maps, and \<open>add_default_params\<close> receives and returns a reference.
  \<open>now\<close> is the value of \<open>int(time.time())\<close> at the call;
  \<open>conn_add_default_headers\<close> is the method inherited from the base connection.
\<close>

type_synonym params = "string \<rightharpoonup> string"
type_synonym ref = nat
type_synonym store = "ref \<Rightarrow> params"

record s3_connection =
  conn_user_id :: string
  conn_key :: string
  conn_method :: string
  conn_action :: string
  conn_add_default_headers :: "headers \<Rightarrow> headers"

definition setitem :: "store \<Rightarrow> ref \<Rightarrow> string \<Rightarrow> string \<Rightarrow> store" where
  \<comment> \<open>\<open>params[k] = v\<close> on the object the reference points to\<close>
  "setitem st r k v = st(r := (st r)(k \<mapsto> v))"

definition add_default_params :: "s3_connection \<Rightarrow> int \<Rightarrow> store \<Rightarrow> ref \<Rightarrow> store \<times> ref" where
  "add_default_params self now st params =
     (let expires = str_int (now + EXPIRATION_SECONDS);
          headers = conn_add_default_headers self [];
          st1 = setitem st params ''Signature''
                  (get_aws_auth_param (conn_method self) headers params (PyStr expires)
                     (conn_key self) (conn_action self));
          st2 = setitem st1 params ''AWSAccessKeyId'' (conn_user_id self);
          st3 = setitem st2 params ''Expires'' expires
      in (st3, params))"

section \<open>Entities\<close>

record container =
  container_name :: "string option"
  container_extra :: "(string \<times> string option) list option"
  container_driver :: s3_driver

record storage_object =
  obj_name :: "string option"
  obj_size :: "string option"
  obj_hash :: "string option"
  obj_extra :: "(string \<times> string option) list option"
  obj_meta_data :: "(string \<times> (string \<times> string option) list) list"
  obj_container :: container
  obj_driver :: s3_driver

section \<open>libcloud.utils\<close>

definition fixxpath :: "string \<Rightarrow> string \<Rightarrow> string" where
  \<comment> \<open>Modelled from the spec: \<open>libcloud.utils.fixxpath\<close> is not among the sources;
      every step of the relative path is qualified with the one namespace URI.\<close>
  "fixxpath xpath namespace =
     join ''/'' (map (\<lambda>e. ''{'' @ namespace @ ''}'' @ e) (split_on CHR ''/'' xpath))"

definition findtext :: "element \<Rightarrow> string \<Rightarrow> string \<Rightarrow> string option" where
  \<comment> \<open>Modelled from the spec: \<open>libcloud.utils.findtext\<close> is not among the sources;
      the text of the first element under the qualified path, absent when there is none.\<close>
  "findtext element xpath namespace = et_findtext element (fixxpath xpath namespace)"

section \<open>S3StorageDriver\<close>

text \<open>
  \<open>connection.request\<close> belongs to the base connection: a transport maps the
  arguments the driver passes (\<open>None\<close> for one it leaves to the default) to the
  response, or to the exception the call raises.
\<close>

record request =
  req_action :: string
  req_data :: "string option"
  req_method :: "string option"

type_synonym transport = "request \<Rightarrow> error + response"

definition to_container :: "s3_driver \<Rightarrow> element \<Rightarrow> container" where
  "to_container self element =
     (let extra = [(''creation_date'', findtext element ''CreationDate'' NAMESPACE)]
      in \<lparr>container_name = findtext element ''Name'' NAMESPACE,
          container_extra = Some extra,
          container_driver = self\<rparr>)"

definition to_obj :: "s3_driver \<Rightarrow> element \<Rightarrow> container \<Rightarrow> storage_object" where
  "to_obj self element container =
     (let owner_id = findtext element ''Owner/ID'' NAMESPACE;
          owner_display_name = findtext element ''Owner/DisplayName'' NAMESPACE;
          meta_data = [(''owner'', [(''id'', owner_id), (''display_name'', owner_display_name)])]
      in \<lparr>obj_name = findtext element ''Key'' NAMESPACE,
          obj_size = findtext element ''Size'' NAMESPACE,
          obj_hash = findtext element ''ETag'' NAMESPACE,
          obj_extra = None,
          obj_meta_data = meta_data,
          obj_container = container,
          obj_driver = self\<rparr>)"

definition to_containers :: "s3_driver \<Rightarrow> element \<Rightarrow> string \<Rightarrow> container list" where
  "to_containers self obj xpath =
     map (to_container self) (et_findall obj (fixxpath xpath NAMESPACE))"

definition to_objs :: "s3_driver \<Rightarrow> element \<Rightarrow> string \<Rightarrow> container \<Rightarrow> storage_object list" where
  "to_objs self obj xpath container =
     map (\<lambda>element. to_obj self element container) (et_findall obj (fixxpath xpath NAMESPACE))"

definition list_containers :: "s3_driver \<Rightarrow> transport \<Rightarrow> error + container list" where
  "list_containers self conn =
     (case conn \<lparr>req_action = ''/'', req_data = None, req_method = None\<rparr> of
        Inl e \<Rightarrow> Inl e
      | Inr response \<Rightarrow>
          if resp_status response = OK
          then Inr (to_containers self (resp_object response) ''Buckets/Bucket'')
          else Inl (LibcloudError (''Unexpected status code: '' @ str_int (resp_status response))
                      (DriverInstance self)))"

definition list_container_objects :: "s3_driver \<Rightarrow> transport \<Rightarrow> container \<Rightarrow> error + storage_object list" where
  "list_container_objects self conn container =
     (case conn \<lparr>req_action = ''/'' @ fmt_s (container_name container), req_data = None,
                 req_method = None\<rparr> of
        Inl e \<Rightarrow> Inl e
      | Inr response \<Rightarrow>
          if resp_status response = OK
          then Inr (to_objs self (resp_object response) ''Contents'' container)
          else Inl (LibcloudError (''Unexpected status code: '' @ str_int (resp_status response))
                      (DriverInstance self)))"

definition create_container :: "s3_driver \<Rightarrow> transport \<Rightarrow> string \<Rightarrow> error + container" where
  "create_container self conn name =
     (let child = Element ''LocationConstraint'' (Some (ex_location_name self)) [];
          root = Element ''CreateBucketConfiguration'' None [child]
      in case conn \<lparr>req_action = ''/'' @ name, req_data = Some (tostring root),
                     req_method = Some ''PUT''\<rparr> of
           Inl e \<Rightarrow> Inl e
         | Inr response \<Rightarrow>
             if resp_status response = OK
             then Inr \<lparr>container_name = Some name, container_extra = None, container_driver = self\<rparr>
             else if resp_status response = CONFLICT
             then Inl (LibcloudError (''Container with this name already exists.'' @
                                      ''The name must be unique across all the '' @
                                      ''containers in the system'') NoDriver)
             else Inl (LibcloudError (''Unexpected status code: '' @ str_int (resp_status response))
                         (DriverInstance self)))"

definition delete_container :: "s3_driver \<Rightarrow> transport \<Rightarrow> container \<Rightarrow> error + bool" where
  "delete_container self conn container =
     (case conn \<lparr>req_action = ''/'' @ fmt_s (container_name container), req_data = None,
                 req_method = Some ''DELETE''\<rparr> of
        Inl e \<Rightarrow> Inl e
      | Inr response \<Rightarrow>
          if resp_status response = NO_CONTENT then Inr True
          else if resp_status response = CONFLICT
          then Inl (ContainerIsNotEmptyError (''Container must be empty'' @
                                              '' before it can be deleted.'')
                      (container_name container) self)
          else if resp_status response = NOT_FOUND
          then Inl (ContainerDoesNotExistError None (container_name container) self)
          else Inr False)"

section \<open>Notions of the specification\<close>

text \<open>
  The values a header map holds under the keys that equal \<open>k\<close> up to letter case, in
  iteration order; and the slot of the string to sign for \<open>k\<close>: the empty string when
  the map has no such key, otherwise the value in force, lowercased and stripped.
\<close>

definition ci_values :: "headers \<Rightarrow> string \<Rightarrow> string list" where
  "ci_values hs k = map snd (filter (\<lambda>(key, v). lower key = k) hs)"

definition header_slot :: "headers \<Rightarrow> string \<Rightarrow> string" where
  "header_slot hs k = (case ci_values hs k of [] \<Rightarrow> [] | v # vs \<Rightarrow> strip (lower (last (v # vs))))"

definition isupper :: "char \<Rightarrow> bool" where
  "isupper c = (65 \<le> (of_char c :: nat) \<and> (of_char c :: nat) \<le> 90)"

text \<open>
  A list-containers document: the root holds the owner and the \<open>Buckets\<close> element,
  whose children are the bucket entries; every tag is qualified with the namespace.
\<close>

definition qname :: "string \<Rightarrow> string" where
  "qname t = ''{'' @ NAMESPACE @ ''}'' @ t"

definition bucket_entry :: "string \<Rightarrow> string \<Rightarrow> element" where
  "bucket_entry n d =
     Element (qname ''Bucket'') None
       [Element (qname ''Name'') (Some n) [], Element (qname ''CreationDate'') (Some d) []]"

definition list_buckets_document :: "element \<Rightarrow> element list \<Rightarrow> element" where
  "list_buckets_document owner entries =
     Element (qname ''ListAllMyBucketsResult'') None
       [Element (qname ''Owner'') None [owner], Element (qname ''Buckets'') None entries]"

section \<open>Decimal rendering\<close>

lemma str_nat_digit: "n < 10 \<Longrightarrow> str_nat n = [digit_char n]"
  by (subst str_nat.simps) simp

lemma str_nat_step: "\<not> n < 10 \<Longrightarrow> str_nat n = str_nat (n div 10) @ [digit_char (n mod 10)]"
  by (subst str_nat.simps) simp

section \<open>Response classification\<close>

text \<open>
  C4. For every response, \<open>success\<close> holds exactly when the status lies in
  200..299 or is one of 404 (not found) and 409 (conflict).
\<close>

theorem success_iff:
  "success r \<longleftrightarrow> (200 \<le> resp_status r \<and> resp_status r \<le> 299) \<or> resp_status r = 404 \<or> resp_status r = 409"
  by (auto simp: success_def Let_def valid_response_codes_def NOT_FOUND_def CONFLICT_def)

lemma of_char_digit_char: "n < 10 \<Longrightarrow> of_char (digit_char n) = 48 + n"
  by (simp add: of_char_of)

lemma digit_char_inj: "a < 10 \<Longrightarrow> b < 10 \<Longrightarrow> digit_char a = digit_char b \<Longrightarrow> a = b"
proof -
  assume a: "a < 10" and b: "b < 10" and e: "digit_char a = digit_char b"
  have "48 + a = (of_char (digit_char a) :: nat)" using of_char_digit_char [OF a] by (simp del: digit_char.simps)
  also have "\<dots> = of_char (digit_char b)" by (simp only: e)
  also have "\<dots> = 48 + b" using of_char_digit_char [OF b] by (simp del: digit_char.simps)
  finally show "a = b" by simp
qed

lemma digit_char_not_minus: "n < 10 \<Longrightarrow> digit_char n \<noteq> CHR ''-''"
proof
  assume n: "n < 10" and e: "digit_char n = CHR ''-''"
  have "of_char (CHR ''-'') = (45::nat)" by code_simp
  with e of_char_digit_char [OF n] show False by (simp del: digit_char.simps)
qed

lemma str_nat_nonempty: "str_nat n \<noteq> []"
  by (cases "n < 10") (simp_all add: str_nat_digit str_nat_step)

lemma str_nat_inj: "str_nat n = str_nat m \<Longrightarrow> n = m"
proof (induction n arbitrary: m rule: str_nat.induct)
  case (1 n)
  show ?case
  proof (cases "n < 10")
    case True
    note n = this
    show ?thesis
    proof (cases "m < 10")
      case True
      with n 1(2) show ?thesis by (auto simp: str_nat_digit dest: digit_char_inj simp del: digit_char.simps)
    next
      case False
      with n 1(2) show ?thesis using str_nat_nonempty[of "m div 10"]
        by (simp add: str_nat_digit str_nat_step del: digit_char.simps)
    qed
  next
    case False
    note n = this
    show ?thesis
    proof (cases "m < 10")
      case True
      with n 1(2) show ?thesis using str_nat_nonempty[of "n div 10"]
        by (simp add: str_nat_digit str_nat_step del: digit_char.simps)
    next
      case False
      with n 1(2) have e: "str_nat (n div 10) = str_nat (m div 10)" and d: "digit_char (n mod 10) = digit_char (m mod 10)"
        by (simp_all add: str_nat_step del: digit_char.simps)
      from 1(1)[OF n e] have "n div 10 = m div 10" .
      moreover from d have "n mod 10 = m mod 10" by (intro digit_char_inj) simp_all
      ultimately show ?thesis by (metis div_mult_mod_eq)
    qed
  qed
qed

lemma str_nat_hd: "hd (str_nat n) \<noteq> CHR ''-''"
proof (induction n rule: str_nat.induct)
  case (1 n)
  show ?case
  proof (cases "n < 10")
    case True
    then show ?thesis using digit_char_not_minus [of n] by (simp add: str_nat_digit del: digit_char.simps)
  next
    case False
    with 1 show ?thesis using str_nat_nonempty[of "n div 10"] by (simp add: str_nat_step del: digit_char.simps)
  qed
qed

lemma str_nat_not_minus: "str_nat n \<noteq> CHR ''-'' # s"
  using str_nat_hd [of n] by auto

lemma str_int_inj: "str_int i = str_int j \<Longrightarrow> i = j"
proof -
  assume e: "str_int i = str_int j"
  show ?thesis
  proof (cases "i < 0")
    case True
    note i = this
    show ?thesis
    proof (cases "j < 0")
      case True
      with i e have "nat (- i) = nat (- j)" by (auto simp: str_int_def dest: str_nat_inj)
      with i True show ?thesis by simp
    next
      case False
      with i e have "str_nat (nat j) = CHR ''-'' # str_nat (nat (- i))" by (simp add: str_int_def)
      then show ?thesis using str_nat_not_minus by blast
    qed
  next
    case False
    note i = this
    show ?thesis
    proof (cases "j < 0")
      case True
      with i e have "str_nat (nat i) = CHR ''-'' # str_nat (nat (- j))" by (simp add: str_int_def)
      then show ?thesis using str_nat_not_minus by blast
    next
      case False
      with i e have "nat i = nat j" by (auto simp: str_int_def dest: str_nat_inj)
      with i False show ?thesis by simp
    qed
  qed
qed

lemma str_int_500: "str_int 500 = ''500''"
  by code_simp

text \<open>
  C5. \<open>parse_error\<close> raises one of three errors: the invalid-credentials error
  (with the body) on status 403; the wrong-region error, which tells the caller to use
  the correct driver, on status 301; the unknown error on every other status, whose
  message ends with the decimal status code, so that the code can be read back from it.
\<close>

theorem parse_error_kinds:
  "(resp_status r = 403 \<longrightarrow> parse_error r = InvalidCredsError (resp_body r)) \<and>
   (resp_status r = 301 \<longrightarrow> parse_error r =
      LibcloudError ''This bucket is located in a different region. Please use the correct driver.'' DriverClass) \<and>
   (resp_status r \<noteq> 403 \<and> resp_status r \<noteq> 301 \<longrightarrow> parse_error r =
      LibcloudError (''Unknown error. Status code: '' @ str_int (resp_status r)) DriverClass) \<and>
   (resp_status r \<noteq> 403 \<and> resp_status r \<noteq> 301 \<and> resp_status r' \<noteq> 403 \<and> resp_status r' \<noteq> 301 \<and>
      parse_error r = parse_error r' \<longrightarrow> resp_status r = resp_status r')"
  by (auto simp: parse_error_def dest: str_int_inj)

theorem parse_error_kinds_witness:
  "parse_error \<lparr>resp_status = 403, resp_body = ''denied'', resp_object = Element [] None []\<rparr> = InvalidCredsError ''denied'' \<and>
   parse_error \<lparr>resp_status = 301, resp_body = [], resp_object = Element [] None []\<rparr> =
      LibcloudError ''This bucket is located in a different region. Please use the correct driver.'' DriverClass \<and>
   parse_error \<lparr>resp_status = 500, resp_body = [], resp_object = Element [] None []\<rparr> =
      LibcloudError ''Unknown error. Status code: 500'' DriverClass"
  using parse_error_kinds [of "\<lparr>resp_status = 403, resp_body = ''denied'', resp_object = Element [] None []\<rparr>"]
        parse_error_kinds [of "\<lparr>resp_status = 301, resp_body = [], resp_object = Element [] None []\<rparr>"]
        parse_error_kinds [of "\<lparr>resp_status = 500, resp_body = [], resp_object = Element [] None []\<rparr>"]
  by (simp add: str_int_500)

section \<open>The string to sign\<close>

lemma map_of_collect_special:
  "map_of (collect_special hs shv) k =
     (if k \<in> set special_header_keys \<and> ci_values hs k \<noteq> []
      then Some (strip (lower (last (ci_values hs k)))) else map_of shv k)"
proof (induction hs arbitrary: shv)
  case Nil
  show ?case by (simp add: ci_values_def)
next
  case (Cons h hs)
  obtain key val where h: "h = (key, val)" by (cases h)
  show ?case
    unfolding h collect_special.simps Cons.IH
    by (auto simp: ci_values_def update_conv')
qed

lemma keys_collect_special:
  "set (map fst (collect_special hs shv)) \<subseteq> set (map fst shv) \<union> set special_header_keys"
proof (induction hs arbitrary: shv)
  case Nil
  show ?case by simp
next
  case (Cons h hs)
  obtain key val where h: "h = (key, val)" by (cases h)
  show ?case unfolding h collect_special.simps
    using Cons.IH [of "if lower key \<in> set special_header_keys
        then AList.update (lower key) (strip (lower val)) shv else shv"]
    by (auto simp: dom_update split: if_splits)
qed

lemma keys_collect_special_mono:
  "set (map fst shv) \<subseteq> set (map fst (collect_special hs shv))"
proof (induction hs arbitrary: shv)
  case Nil
  show ?case by simp
next
  case (Cons h hs)
  obtain key val where h: "h = (key, val)" by (cases h)
  show ?case unfolding h collect_special.simps
    using Cons.IH [of "if lower key \<in> set special_header_keys
        then AList.update (lower key) (strip (lower val)) shv else shv"]
    by (auto simp: dom_update split: if_splits)
qed

lemma distinct_collect_special:
  "distinct (map fst shv) \<Longrightarrow> distinct (map fst (collect_special hs shv))"
proof (induction hs arbitrary: shv)
  case Nil
  then show ?case by simp
next
  case (Cons h hs)
  obtain key val where h: "h = (key, val)" by (cases h)
  show ?case unfolding h collect_special.simps
    by (rule Cons.IH) (simp add: distinct_update Cons.prems)
qed


lemma has_key_iff: "has_key d k \<longleftrightarrow> k \<in> fst ` set d"
  by (simp add: has_key_def map_of_eq_None_iff)

lemma keys_special_header_values:
  "fst ` set (special_header_values hs e) = set special_header_keys"
proof -
  let ?shv0 = "collect_special hs [(''date'', [])]"
  have lo: "fst ` set ?shv0 \<subseteq> set special_header_keys"
    using keys_collect_special [of hs "[(''date'', [])]"] by (auto simp: special_header_keys_def)
  have hi: "''date'' \<in> fst ` set ?shv0"
    using keys_collect_special_mono [of "[(''date'', [])]" hs] by auto
  show ?thesis
    using lo hi
    by (auto simp: special_header_values_def Let_def has_key_iff dom_update special_header_keys_def)
qed

lemma distinct_special_header_values:
  "distinct (map fst (special_header_values hs e))"
proof -
  have "distinct (map fst (collect_special hs [(''date'', [])]))"
    by (rule distinct_collect_special) simp
  then show ?thesis
    by (simp add: special_header_values_def Let_def distinct_update)
qed

lemma sort_special_keys: "sort (remdups special_header_keys) = special_header_keys"
  by code_simp

lemma keys_sorted_special_header_values:
  "sort (map fst (special_header_values hs e)) = special_header_keys"
proof -
  let ?ks = "map fst (special_header_values hs e)"
  have s: "set ?ks = set special_header_keys"
    using keys_special_header_values [of hs e] by simp
  have "sort ?ks = sort (remdups ?ks)"
    by (simp add: distinct_remdups_id distinct_special_header_values)
  also have "\<dots> = sorted_list_of_set (set ?ks)"
    by (rule sorted_list_of_set_sort_remdups [symmetric])
  also have "\<dots> = sorted_list_of_set (set special_header_keys)"
    by (simp only: s)
  also have "\<dots> = sort (remdups special_header_keys)"
    by (rule sorted_list_of_set_sort_remdups)
  finally show ?thesis by (simp only: sort_special_keys)
qed

lemma getitem_special_header_values:
  assumes "k \<in> set special_header_keys"
  shows "getitem (special_header_values hs e) k =
     (if k = ''date'' \<and> truthy e then py_str e else header_slot hs k)"
  using assms
  by (auto simp: getitem_def special_header_values_def Let_def has_key_def update_conv'
      map_of_collect_special header_slot_def special_header_keys_def split: list.splits)

lemma string_to_sign_closed:
  "string_to_sign method hs e path =
     method @ [CHR 0x0A] @ header_slot hs ''content-md5'' @ [CHR 0x0A] @
     header_slot hs ''content-type'' @ [CHR 0x0A] @
     (if truthy e then py_str e else header_slot hs ''date'') @ [CHR 0x0A] @ path"
proof -
  have k: "''content-md5'' \<in> set special_header_keys" "''content-type'' \<in> set special_header_keys"
    "''date'' \<in> set special_header_keys" by (simp_all add: special_header_keys_def)
  show ?thesis
    unfolding string_to_sign_def Let_def keys_sorted_special_header_values
    by (simp add: special_header_keys_def getitem_special_header_values [OF k(1)]
         getitem_special_header_values [OF k(2)] getitem_special_header_values [OF k(3)])
qed

end
